theory Spec2Isabelle
  imports Main "HOL-Library.Sublist" "HOL-Library.Monad_Syntax"
begin

section \<open>Upstream payloads\<close>

text \<open>
  The HeyGen client hands the handlers loosely typed Python values: dictionaries, lists,
  strings, integers, booleans and \<open>None\<close>. A dictionary is an association list read with
  \<open>map_of\<close>. A string is a list of characters, each a code point below 256. On
  these \<open>strip\<close> below removes what Python's \<open>str.strip()\<close> removes, and on 7-bit
  ASCII text \<open>upper\<close> agrees with \<open>str.upper()\<close>; statements about arbitrary text
  are made for ASCII text (\<open>ascii_text\<close>).
\<close>

datatype json =
    JNull
  | JBool bool
  | JInt int
  | JStr string
  | JList "json list"
  | JDict "(string \<times> json) list"

type_synonym payload = "(string \<times> json) list"

text \<open>\<open>d.get(k, default)\<close> on a dictionary.\<close>

definition dict_get :: "payload \<Rightarrow> string \<Rightarrow> json \<Rightarrow> json" where
  "dict_get d k dflt = (case map_of d k of Some v \<Rightarrow> v | None \<Rightarrow> dflt)"

text \<open>
  \<open>x.get(k, default)\<close> on an arbitrary value: only a dictionary has the method, on anything
  else Python raises AttributeError (\<open>None\<close> here).
\<close>

definition py_get :: "json \<Rightarrow> string \<Rightarrow> json \<Rightarrow> json option" where
  "py_get x k dflt = (case x of JDict d \<Rightarrow> Some (dict_get d k dflt) | _ \<Rightarrow> None)"

text \<open>
  \<open>for item in x\<close>: a list yields its elements, a dictionary its keys, a string its
  characters; \<open>None\<close>, booleans and integers raise TypeError (\<open>None\<close> here).
\<close>

definition py_iter :: "json \<Rightarrow> json list option" where
  "py_iter x =
     (case x of
        JList xs \<Rightarrow> Some xs
      | JDict d \<Rightarrow> Some (map (\<lambda>kv. JStr (fst kv)) d)
      | JStr s \<Rightarrow> Some (map (\<lambda>c. JStr [c]) s)
      | _ \<Rightarrow> None)"

text \<open>
  \<open>k in x\<close> for a string \<open>k\<close>: key membership in a dictionary, element membership in a
  list, substring test in a string, TypeError (\<open>None\<close>) otherwise.
\<close>

definition py_in :: "string \<Rightarrow> json \<Rightarrow> bool option" where
  "py_in k x =
     (case x of
        JDict d \<Rightarrow> Some (map_of d k \<noteq> None)
      | JList xs \<Rightarrow> Some (JStr k \<in> set xs)
      | JStr s \<Rightarrow> Some (sublist k s)
      | _ \<Rightarrow> None)"

text \<open>
  \<open>x[k]\<close> for a string \<open>k\<close>: the value stored in a dictionary; KeyError on a missing
  key and TypeError on every other kind of value are both \<open>None\<close>.
\<close>

definition py_getitem :: "json \<Rightarrow> string \<Rightarrow> json option" where
  "py_getitem x k = (case x of JDict d \<Rightarrow> map_of d k | _ \<Rightarrow> None)"

subsection \<open>Strings\<close>

text \<open>
  The code points below 256 that Python counts as whitespace: tab to carriage return,
  the four separators 28 to 31, the blank, NEXT LINE (133) and NO-BREAK SPACE (160).
\<close>

definition isspace :: "char \<Rightarrow> bool" where
  "isspace c = ((of_char c :: nat) \<in> {9, 10, 11, 12, 13, 28, 29, 30, 31, 32, 133, 160})"

definition strip :: "string \<Rightarrow> string" where
  "strip s = rev (dropWhile isspace (rev (dropWhile isspace s)))"

definition upper_char :: "char \<Rightarrow> char" where
  "upper_char c =
     (let n = (of_char c :: nat) in if 97 \<le> n \<and> n \<le> 122 then char_of (n - 32) else c)"

definition upper :: "string \<Rightarrow> string" where
  "upper s = map upper_char s"

definition ascii_text :: "string \<Rightarrow> bool" where
  "ascii_text s = list_all (\<lambda>c. (of_char c :: nat) < 128) s"

subsection \<open>Field validation of the response and request models\<close>

text \<open>
  The pydantic field types met in the models. A value of the declared kind is accepted
  unchanged and every other kind of value is rejected (\<open>None\<close> stands for the library's
  ValidationError). The conversions pydantic applies to some values of another kind (a
  numeric string given for an integer field, say) are left out; no statement below rests
  on such a value being rejected.
\<close>

definition field_str :: "json \<Rightarrow> string option" where
  "field_str v = (case v of JStr s \<Rightarrow> Some s | _ \<Rightarrow> None)"

definition field_int :: "json \<Rightarrow> int option" where
  "field_int v = (case v of JInt i \<Rightarrow> Some i | _ \<Rightarrow> None)"

definition field_bool :: "json \<Rightarrow> bool option" where
  "field_bool v = (case v of JBool b \<Rightarrow> Some b | _ \<Rightarrow> None)"

definition field_opt_str :: "json \<Rightarrow> string option option" where
  "field_opt_str v = (case v of JNull \<Rightarrow> Some None | JStr s \<Rightarrow> Some (Some s) | _ \<Rightarrow> None)"

definition field_opt_int :: "json \<Rightarrow> int option option" where
  "field_opt_int v = (case v of JNull \<Rightarrow> Some None | JInt i \<Rightarrow> Some (Some i) | _ \<Rightarrow> None)"

definition field_opt_dict :: "json \<Rightarrow> payload option option" where
  "field_opt_dict v = (case v of JNull \<Rightarrow> Some None | JDict d \<Rightarrow> Some (Some d) | _ \<Rightarrow> None)"

section \<open>Errors\<close>

text \<open>
  The exception classes the handlers name in their \<open>except\<close> clauses; \<open>ValidationError\<close>
  is pydantic's. The module declaring the HeyGen classes is not part of the sources, so a
  raised exception carries the list of these classes it is an instance of (its class and
  that class's bases), the text \<open>str(e)\<close>, and its \<open>status_code\<close> and \<open>details\<close>
  attributes when it has them.
\<close>

datatype exc_class =
    HeyGenValidationError
  | AuthenticationError
  | SessionNotFoundError
  | NotFoundError
  | RateLimitError
  | ServerError
  | HeyGenAPIError
  | ValidationError

record exc =
  exc_classes :: "exc_class list"
  exc_str :: string
  exc_status_code :: "int option"
  exc_details :: "json option"

definition isinstance :: "exc \<Rightarrow> exc_class \<Rightarrow> bool" where
  "isinstance e c = (c \<in> set (exc_classes e))"

text \<open>\<open>getattr(e, "status_code", 500)\<close> and \<open>getattr(e, "details", {})\<close>.\<close>

definition getattr_status_code :: "exc \<Rightarrow> int" where
  "getattr_status_code e = (case exc_status_code e of Some c \<Rightarrow> c | None \<Rightarrow> 500)"

definition getattr_details :: "exc \<Rightarrow> json" where
  "getattr_details e = (case exc_details e of Some d \<Rightarrow> d | None \<Rightarrow> JDict [])"

text \<open>
  An exception raised while a handler builds its response: pydantic's ValidationError, or
  a built-in AttributeError, TypeError or KeyError. None of them is a HeyGen class, and the
  handlers that build a response have no clause for pydantic's ValidationError, so one
  value stands for all of them.
\<close>

definition unexpected_error :: exc where
  "unexpected_error =
     \<lparr>exc_classes = [], exc_str = ''unexpected error'', exc_status_code = None,
      exc_details = None\<rparr>"

record HTTPException =
  status_code :: int
  detail :: json

subsection \<open>The except chains of the handlers\<close>

text \<open>Each chain is tried top to bottom, as Python tries the \<open>except\<close> clauses.\<close>

definition send_task_except :: "exc \<Rightarrow> HTTPException" where
  "send_task_except e =
     (if isinstance e HeyGenValidationError then
        \<lparr>status_code = 400,
         detail = JDict [(''message'', JStr (exc_str e)), (''details'', getattr_details e)]\<rparr>
      else if isinstance e AuthenticationError then
        \<lparr>status_code = 401, detail = JDict [(''message'', JStr (exc_str e))]\<rparr>
      else if isinstance e SessionNotFoundError then
        \<lparr>status_code = 404, detail = JDict [(''message'', JStr (exc_str e))]\<rparr>
      else if isinstance e RateLimitError then
        \<lparr>status_code = 429, detail = JDict [(''message'', JStr (exc_str e))]\<rparr>
      else if isinstance e ServerError \<or> isinstance e HeyGenAPIError then
        \<lparr>status_code = getattr_status_code e,
         detail = JDict [(''message'', JStr (exc_str e)), (''details'', getattr_details e)]\<rparr>
      else
        \<lparr>status_code = 500, detail = JDict [(''message'', JStr ''Internal server error'')]\<rparr>)"

definition list_avatars_except :: "exc \<Rightarrow> HTTPException" where
  "list_avatars_except e =
     (if isinstance e HeyGenValidationError then
        \<lparr>status_code = 400,
         detail = JDict [(''message'', JStr (exc_str e)), (''details'', getattr_details e)]\<rparr>
      else if isinstance e AuthenticationError then
        \<lparr>status_code = 401, detail = JDict [(''message'', JStr (exc_str e))]\<rparr>
      else if isinstance e RateLimitError then
        \<lparr>status_code = 429, detail = JDict [(''message'', JStr (exc_str e))]\<rparr>
      else if isinstance e ServerError \<or> isinstance e HeyGenAPIError then
        \<lparr>status_code = getattr_status_code e,
         detail = JDict [(''message'', JStr (exc_str e)), (''details'', getattr_details e)]\<rparr>
      else
        \<lparr>status_code = 500, detail = JDict [(''message'', JStr ''Internal server error'')]\<rparr>)"

definition list_sessions_active_except :: "exc \<Rightarrow> HTTPException" where
  "list_sessions_active_except e =
     (if isinstance e HeyGenValidationError then
        \<lparr>status_code = 400,
         detail = JDict [(''message'', JStr (exc_str e)), (''details'', getattr_details e)]\<rparr>
      else if isinstance e AuthenticationError then
        \<lparr>status_code = 401, detail = JDict [(''message'', JStr (exc_str e))]\<rparr>
      else if isinstance e RateLimitError then
        \<lparr>status_code = 429, detail = JDict [(''message'', JStr (exc_str e))]\<rparr>
      else if isinstance e ServerError \<or> isinstance e HeyGenAPIError then
        \<lparr>status_code = getattr_status_code e,
         detail = JDict [(''message'', JStr (exc_str e)), (''details'', getattr_details e)]\<rparr>
      else
        \<lparr>status_code = 500, detail = JDict [(''message'', JStr ''Internal server error'')]\<rparr>)"

definition list_sessions_history_except :: "exc \<Rightarrow> HTTPException" where
  "list_sessions_history_except e =
     (if isinstance e HeyGenValidationError then
        \<lparr>status_code = 400,
         detail = JDict [(''message'', JStr (exc_str e)), (''details'', getattr_details e)]\<rparr>
      else if isinstance e AuthenticationError then
        \<lparr>status_code = 401, detail = JDict [(''message'', JStr (exc_str e))]\<rparr>
      else if isinstance e RateLimitError then
        \<lparr>status_code = 429, detail = JDict [(''message'', JStr (exc_str e))]\<rparr>
      else if isinstance e ServerError \<or> isinstance e HeyGenAPIError then
        \<lparr>status_code = getattr_status_code e,
         detail = JDict [(''message'', JStr (exc_str e)), (''details'', getattr_details e)]\<rparr>
      else
        \<lparr>status_code = 500, detail = JDict [(''message'', JStr ''Internal server error'')]\<rparr>)"

definition create_streaming_session_except :: "exc \<Rightarrow> HTTPException" where
  "create_streaming_session_except e =
     (if isinstance e HeyGenValidationError then
        \<lparr>status_code = 400,
         detail = JDict [(''message'', JStr (exc_str e)), (''details'', getattr_details e)]\<rparr>
      else if isinstance e AuthenticationError then
        \<lparr>status_code = 401, detail = JDict [(''message'', JStr (exc_str e))]\<rparr>
      else if isinstance e NotFoundError then
        \<lparr>status_code = 404,
         detail = JDict [(''message'', JStr (exc_str e)), (''details'', getattr_details e)]\<rparr>
      else if isinstance e ValidationError then
        \<lparr>status_code = 422,
         detail = JDict [(''message'', JStr ''Validation error''), (''details'', JStr (exc_str e))]\<rparr>
      else if isinstance e RateLimitError then
        \<lparr>status_code = 429, detail = JDict [(''message'', JStr (exc_str e))]\<rparr>
      else if isinstance e ServerError \<or> isinstance e HeyGenAPIError then
        \<lparr>status_code = getattr_status_code e,
         detail = JDict [(''message'', JStr (exc_str e)), (''details'', getattr_details e)]\<rparr>
      else
        \<lparr>status_code = 500, detail = JDict [(''message'', JStr ''Internal server error'')]\<rparr>)"

definition start_streaming_session_except :: "string \<Rightarrow> exc \<Rightarrow> HTTPException" where
  "start_streaming_session_except session_id e =
     (if isinstance e HeyGenValidationError then
        \<lparr>status_code = 400,
         detail = JDict [(''message'', JStr (exc_str e)), (''details'', getattr_details e)]\<rparr>
      else if isinstance e AuthenticationError then
        \<lparr>status_code = 401, detail = JDict [(''message'', JStr (exc_str e))]\<rparr>
      else if isinstance e NotFoundError then
        \<lparr>status_code = 404,
         detail = JDict [(''message'', JStr (''Session not found: '' @ session_id))]\<rparr>
      else if isinstance e RateLimitError then
        \<lparr>status_code = 429, detail = JDict [(''message'', JStr (exc_str e))]\<rparr>
      else if isinstance e ServerError \<or> isinstance e HeyGenAPIError then
        \<lparr>status_code = getattr_status_code e,
         detail = JDict [(''message'', JStr (exc_str e)), (''details'', getattr_details e)]\<rparr>
      else
        \<lparr>status_code = 500, detail = JDict [(''message'', JStr ''Internal server error'')]\<rparr>)"

definition create_session_token_except :: "exc \<Rightarrow> HTTPException" where
  "create_session_token_except e =
     (if isinstance e AuthenticationError then
        \<lparr>status_code = 401, detail = JStr (exc_str e)\<rparr>
      else if isinstance e SessionNotFoundError then
        \<lparr>status_code = 404, detail = JStr (exc_str e)\<rparr>
      else if isinstance e RateLimitError then
        \<lparr>status_code = 429, detail = JStr (exc_str e)\<rparr>
      else if isinstance e ServerError \<or> isinstance e HeyGenAPIError then
        \<lparr>status_code = getattr_status_code e, detail = JStr (exc_str e)\<rparr>
      else
        \<lparr>status_code = 500, detail = JStr ''An unexpected error occurred''\<rparr>)"

definition keep_alive_except :: "exc \<Rightarrow> HTTPException" where
  "keep_alive_except e =
     (if isinstance e AuthenticationError then
        \<lparr>status_code = 401, detail = JStr (exc_str e)\<rparr>
      else if isinstance e SessionNotFoundError then
        \<lparr>status_code = 404, detail = JStr (exc_str e)\<rparr>
      else if isinstance e RateLimitError then
        \<lparr>status_code = 429, detail = JStr (exc_str e)\<rparr>
      else if isinstance e ServerError \<or> isinstance e HeyGenAPIError then
        \<lparr>status_code = getattr_status_code e, detail = JStr (exc_str e)\<rparr>
      else
        \<lparr>status_code = 500, detail = JStr ''An unexpected error occurred''\<rparr>)"

definition close_session_except :: "exc \<Rightarrow> HTTPException" where
  "close_session_except e =
     (if isinstance e AuthenticationError then
        \<lparr>status_code = 401, detail = JStr (exc_str e)\<rparr>
      else if isinstance e SessionNotFoundError then
        \<lparr>status_code = 404, detail = JStr (exc_str e)\<rparr>
      else if isinstance e RateLimitError then
        \<lparr>status_code = 429, detail = JStr (exc_str e)\<rparr>
      else if isinstance e ServerError \<or> isinstance e HeyGenAPIError then
        \<lparr>status_code = getattr_status_code e, detail = JStr (exc_str e)\<rparr>
      else
        \<lparr>status_code = 500, detail = JStr ''An unexpected error occurred''\<rparr>)"

definition interrupt_task_except :: "exc \<Rightarrow> HTTPException" where
  "interrupt_task_except e =
     (if isinstance e AuthenticationError then
        \<lparr>status_code = 401, detail = JStr (exc_str e)\<rparr>
      else if isinstance e SessionNotFoundError then
        \<lparr>status_code = 404, detail = JStr (exc_str e)\<rparr>
      else if isinstance e RateLimitError then
        \<lparr>status_code = 429, detail = JStr (exc_str e)\<rparr>
      else if isinstance e ServerError \<or> isinstance e HeyGenAPIError then
        \<lparr>status_code = getattr_status_code e, detail = JStr (exc_str e)\<rparr>
      else
        \<lparr>status_code = 500, detail = JStr ''An unexpected error occurred''\<rparr>)"

subsection \<open>All handlers at once\<close>

datatype handler =
    H_create_streaming_session
  | H_start_streaming_session
  | H_close_session
  | H_keep_alive
  | H_interrupt_task
  | H_create_session_token
  | H_send_task
  | H_list_avatars
  | H_list_sessions_active
  | H_list_sessions_history

text \<open>
  What handler \<open>h\<close> raises when exception \<open>e\<close> reaches its except chain; \<open>session_id\<close>
  is the session the request names (only the start handler reads it).
\<close>

fun handler_except :: "handler \<Rightarrow> string \<Rightarrow> exc \<Rightarrow> HTTPException" where
  "handler_except H_create_streaming_session session_id e = create_streaming_session_except e"
| "handler_except H_start_streaming_session session_id e =
     start_streaming_session_except session_id e"
| "handler_except H_close_session session_id e = close_session_except e"
| "handler_except H_keep_alive session_id e = keep_alive_except e"
| "handler_except H_interrupt_task session_id e = interrupt_task_except e"
| "handler_except H_create_session_token session_id e = create_session_token_except e"
| "handler_except H_send_task session_id e = send_task_except e"
| "handler_except H_list_avatars session_id e = list_avatars_except e"
| "handler_except H_list_sessions_active session_id e = list_sessions_active_except e"
| "handler_except H_list_sessions_history session_id e = list_sessions_history_except e"

text \<open>The classes each handler names in its except clauses, in the order of the source.\<close>

fun except_clauses :: "handler \<Rightarrow> exc_class list" where
  "except_clauses H_create_streaming_session =
     [HeyGenValidationError, AuthenticationError, NotFoundError, ValidationError,
      RateLimitError, ServerError, HeyGenAPIError]"
| "except_clauses H_start_streaming_session =
     [HeyGenValidationError, AuthenticationError, NotFoundError, RateLimitError,
      ServerError, HeyGenAPIError]"
| "except_clauses H_close_session =
     [AuthenticationError, SessionNotFoundError, RateLimitError, ServerError, HeyGenAPIError]"
| "except_clauses H_keep_alive =
     [AuthenticationError, SessionNotFoundError, RateLimitError, ServerError, HeyGenAPIError]"
| "except_clauses H_interrupt_task =
     [AuthenticationError, SessionNotFoundError, RateLimitError, ServerError, HeyGenAPIError]"
| "except_clauses H_create_session_token =
     [AuthenticationError, SessionNotFoundError, RateLimitError, ServerError, HeyGenAPIError]"
| "except_clauses H_send_task =
     [HeyGenValidationError, AuthenticationError, SessionNotFoundError, RateLimitError,
      ServerError, HeyGenAPIError]"
| "except_clauses H_list_avatars =
     [HeyGenValidationError, AuthenticationError, RateLimitError, ServerError, HeyGenAPIError]"
| "except_clauses H_list_sessions_active =
     [HeyGenValidationError, AuthenticationError, RateLimitError, ServerError, HeyGenAPIError]"
| "except_clauses H_list_sessions_history =
     [HeyGenValidationError, AuthenticationError, RateLimitError, ServerError, HeyGenAPIError]"

text \<open>The clause that catches \<open>e\<close> in handler \<open>h\<close>; \<open>None\<close> is the final \<open>except Exception\<close>.\<close>

definition caught_as :: "handler \<Rightarrow> exc \<Rightarrow> exc_class option" where
  "caught_as h e = find (isinstance e) (except_clauses h)"

text \<open>
  The status table of the specification (section 4.1), with the 422 of a local schema
  failure (section 4.2) for pydantic's ValidationError.
\<close>

fun table_status :: "exc_class \<Rightarrow> exc \<Rightarrow> int" where
  "table_status AuthenticationError e = 401"
| "table_status SessionNotFoundError e = 404"
| "table_status NotFoundError e = 404"
| "table_status HeyGenValidationError e = 400"
| "table_status ValidationError e = 422"
| "table_status RateLimitError e = 429"
| "table_status ServerError e = (case exc_status_code e of Some c \<Rightarrow> c | None \<Rightarrow> 500)"
| "table_status HeyGenAPIError e = (case exc_status_code e of Some c \<Rightarrow> c | None \<Rightarrow> 500)"

text \<open>
  The error text a caller reads from a detail: the \<open>message\<close> field of an object, or the
  detail itself when it is a bare string.
\<close>

definition error_text :: "json \<Rightarrow> string option" where
  "error_text d =
     (case d of
        JStr s \<Rightarrow> Some s
      | JDict kvs \<Rightarrow> (case map_of kvs ''message'' of Some (JStr m) \<Rightarrow> Some m | _ \<Rightarrow> None)
      | _ \<Rightarrow> None)"





section \<open>Handlers\<close>

text \<open>
  What a route answers: FastAPI rejects a request that fails the declared parameter or
  body validation with HTTP 422 before the handler runs; otherwise the handler raises an
  HTTPException or returns its response model, sent with the status of the route
  decorator.
\<close>

datatype 'r http_result =
    RequestValidationError
  | Raised HTTPException
  | Returned 'r

fun success_status :: "handler \<Rightarrow> int" where
  "success_status H_create_streaming_session = 201"
| "success_status H_create_session_token = 201"
| "success_status h = 200"

fun http_status :: "handler \<Rightarrow> 'r http_result \<Rightarrow> int" where
  "http_status h RequestValidationError = 422"
| "http_status h (Raised x) = status_code x"
| "http_status h (Returned r) = success_status h"

subsection \<open>interrupt\_task\<close>

record InterruptTaskResponse =
  success :: bool
  message :: string

definition interrupt_task ::
  "(string \<Rightarrow> exc + 'p) \<Rightarrow> string \<Rightarrow> InterruptTaskResponse http_result" where
  "interrupt_task client sid =
     (case client sid of
        Inl e \<Rightarrow> Raised (interrupt_task_except e)
      | Inr response \<Rightarrow>
          Returned \<lparr>success = True, message = ''Interrupt signal sent successfully''\<rparr>)"

subsection \<open>create\_session\_token\<close>

text \<open>
  The request model of the module. Its arguments are the values given for
  \<open>session_id\<close> and \<open>expires_in\<close> (\<open>expires_in\<close> defaults to \<open>None\<close>).
\<close>

record CreateTokenRequest =
  session_id :: string
  expires_in :: "int option"

definition validate_session_id :: "string \<Rightarrow> string option" where
  "validate_session_id v = (if v = [] \<or> strip v = [] then None else Some (strip v))"

definition CreateTokenRequest_init :: "json \<Rightarrow> json \<Rightarrow> CreateTokenRequest option" where
  "CreateTokenRequest_init session_id_v expires_in_v =
     do {
       s \<leftarrow> field_str session_id_v;
       sid \<leftarrow> validate_session_id s;
       exp \<leftarrow> field_opt_int expires_in_v;
       if (case exp of Some n \<Rightarrow> n < 60 \<or> 86400 < n | None \<Rightarrow> False) then None
       else Some \<lparr>session_id = sid, expires_in = exp\<rparr>
     }"

record CreateTokenResponse =
  token :: string
  error :: "payload option"

definition CreateTokenResponse_init :: "json \<Rightarrow> json \<Rightarrow> CreateTokenResponse option" where
  "CreateTokenResponse_init token_v error_v =
     do {
       t \<leftarrow> field_str token_v;
       err \<leftarrow> field_opt_dict error_v;
       Some \<lparr>token = t, error = err\<rparr>
     }"

text \<open>
  The handler takes \<open>session_id\<close> (here \<open>sid\<close>) and \<open>expires_in\<close> as plain
  parameters; \<open>expires_in_arg = None\<close> is a request that gives no \<open>expires_in\<close>, for
  which the parameter default 3600 applies. The client is called with both values.
\<close>

definition create_session_token ::
  "(string \<Rightarrow> int \<Rightarrow> exc + payload) \<Rightarrow> string \<Rightarrow> int option \<Rightarrow>
   CreateTokenResponse http_result" where
  "create_session_token client sid expires_in_arg =
     (let expires = (case expires_in_arg of None \<Rightarrow> 3600 | Some n \<Rightarrow> n) in
      case client sid expires of
        Inl e \<Rightarrow> Raised (create_session_token_except e)
      | Inr response \<Rightarrow>
          (case do {
                  token_v \<leftarrow> py_get (dict_get response ''data'' (JDict [])) ''token'' (JStr []);
                  CreateTokenResponse_init token_v (dict_get response ''error'' JNull)
                } of
             None \<Rightarrow> Raised (create_session_token_except unexpected_error)
           | Some r \<Rightarrow> Returned r))"

subsection \<open>send\_task\<close>

datatype TaskMode = SYNC | ASYNC

datatype TaskType = REPEAT | CHAT

record SendTaskRequest =
  session_id :: string
  "text" :: string
  task_mode :: TaskMode
  task_type :: TaskType

definition validate_text :: "string \<Rightarrow> string option" where
  "validate_text v = (let stripped = strip v in if stripped = [] then None else Some stripped)"

definition field_TaskMode :: "json \<Rightarrow> TaskMode option" where
  "field_TaskMode v =
     (if v = JStr ''sync'' then Some SYNC else if v = JStr ''async'' then Some ASYNC else None)"

definition field_TaskType :: "json \<Rightarrow> TaskType option" where
  "field_TaskType v =
     (if v = JStr ''repeat'' then Some REPEAT else if v = JStr ''chat'' then Some CHAT
      else None)"

text \<open>
  Validation of a request body against \<open>SendTaskRequest\<close>: \<open>session_id\<close> and
  \<open>text\<close> are required, \<open>text\<close> has \<open>min_length=1\<close> and then goes through
  \<open>validate_text\<close>, whose result is the value stored.
\<close>

definition SendTaskRequest_init :: "payload \<Rightarrow> SendTaskRequest option" where
  "SendTaskRequest_init body =
     do {
       sid_v \<leftarrow> map_of body ''session_id'';
       sid \<leftarrow> field_str sid_v;
       text_v \<leftarrow> map_of body ''text'';
       t \<leftarrow> field_str text_v;
       t' \<leftarrow> (if length t < 1 then None else validate_text t);
       m \<leftarrow> (case map_of body ''task_mode'' of None \<Rightarrow> Some SYNC | Some v \<Rightarrow> field_TaskMode v);
       ty \<leftarrow> (case map_of body ''task_type'' of None \<Rightarrow> Some REPEAT
                                               | Some v \<Rightarrow> field_TaskType v);
       Some \<lparr>session_id = sid, text = t', task_mode = m, task_type = ty\<rparr>
     }"

definition send_task ::
  "(SendTaskRequest \<Rightarrow> exc + 'r) \<Rightarrow> SendTaskRequest \<Rightarrow> 'r http_result" where
  "send_task client request =
     (case client request of
        Inr response \<Rightarrow> Returned response
      | Inl e \<Rightarrow> Raised (send_task_except e))"

text \<open>The route \<open>POST /tasks\<close>: the body is validated, then the handler runs.\<close>

definition post_tasks :: "(SendTaskRequest \<Rightarrow> exc + 'r) \<Rightarrow> payload \<Rightarrow> 'r http_result" where
  "post_tasks client body =
     (case SendTaskRequest_init body of
        None \<Rightarrow> RequestValidationError
      | Some request \<Rightarrow> send_task client request)"

subsection \<open>list\_avatars\<close>

record AvatarInfo =
  avatar_id :: string
  created_at :: int
  is_public :: bool
  status :: string

definition validate_status :: "string \<Rightarrow> string option" where
  "validate_status v = (if v = [] \<or> strip v = [] then None else Some (upper (strip v)))"

definition AvatarInfo_init :: "json \<Rightarrow> json \<Rightarrow> json \<Rightarrow> json \<Rightarrow> AvatarInfo option" where
  "AvatarInfo_init avatar_id_v created_at_v is_public_v status_v =
     do {
       a \<leftarrow> field_str avatar_id_v;
       c \<leftarrow> field_int created_at_v;
       p \<leftarrow> field_bool is_public_v;
       s \<leftarrow> field_str status_v;
       s' \<leftarrow> validate_status s;
       Some \<lparr>avatar_id = a, created_at = c, is_public = p, status = s'\<rparr>
     }"

record ListAvatarsResponse =
  code :: int
  message :: string
  data :: "AvatarInfo list"

definition validate_code :: "int \<Rightarrow> int option" where
  "validate_code v = (if v < 0 then None else Some v)"

definition validate_message :: "string \<Rightarrow> string option" where
  "validate_message v = (if v = [] \<or> strip v = [] then None else Some (strip v))"

definition ListAvatarsResponse_init ::
  "json \<Rightarrow> json \<Rightarrow> AvatarInfo list \<Rightarrow> ListAvatarsResponse option" where
  "ListAvatarsResponse_init code_v message_v avatars =
     do {
       c \<leftarrow> field_int code_v;
       c' \<leftarrow> validate_code c;
       m \<leftarrow> field_str message_v;
       m' \<leftarrow> validate_message m;
       Some \<lparr>code = c', message = m', data = avatars\<rparr>
     }"

text \<open>One element of the list comprehension of the handler.\<close>

definition avatar_info :: "json \<Rightarrow> AvatarInfo option" where
  "avatar_info avatar =
     do {
       v1 \<leftarrow> py_get avatar ''avatar_id'' JNull;
       v2 \<leftarrow> py_get avatar ''created_at'' JNull;
       v3 \<leftarrow> py_get avatar ''is_public'' (JBool True);
       v4 \<leftarrow> py_get avatar ''status'' (JStr ''ACTIVE'');
       AvatarInfo_init v1 v2 v3 v4
     }"

text \<open>The handler, given what the call of the client produced.\<close>

definition list_avatars :: "exc + payload \<Rightarrow> ListAvatarsResponse http_result" where
  "list_avatars upstream =
     (case upstream of
        Inl e \<Rightarrow> Raised (list_avatars_except e)
      | Inr response \<Rightarrow>
          (case do {
                  items \<leftarrow> py_iter (dict_get response ''data'' (JList []));
                  avatars \<leftarrow> those (map avatar_info items);
                  ListAvatarsResponse_init (dict_get response ''code'' (JInt 100))
                    (dict_get response ''message'' (JStr ''Success'')) avatars
                } of
             None \<Rightarrow> Raised (list_avatars_except unexpected_error)
           | Some r \<Rightarrow> Returned r))"

subsection \<open>list\_sessions\_active\<close>

record SessionInfo =
  session_id :: string
  status :: string
  created_at :: int

definition SessionInfo_init :: "json \<Rightarrow> json \<Rightarrow> json \<Rightarrow> SessionInfo option" where
  "SessionInfo_init session_id_v created_at_v status_v =
     do {
       i \<leftarrow> field_str session_id_v;
       c \<leftarrow> field_int created_at_v;
       s \<leftarrow> field_str status_v;
       Some \<lparr>session_id = i, status = s, created_at = c\<rparr>
     }"

record ListSessionsActiveResponse =
  code :: int
  message :: string
  data :: "SessionInfo list"

definition ListSessionsActiveResponse_init ::
  "json \<Rightarrow> json \<Rightarrow> SessionInfo list \<Rightarrow> ListSessionsActiveResponse option" where
  "ListSessionsActiveResponse_init code_v message_v sessions =
     do {
       c \<leftarrow> field_int code_v;
       m \<leftarrow> field_str message_v;
       Some \<lparr>code = c, message = m, data = sessions\<rparr>
     }"

definition session_info :: "json \<Rightarrow> SessionInfo option" where
  "session_info session =
     do {
       v1 \<leftarrow> py_get session ''session_id'' JNull;
       v2 \<leftarrow> py_get session ''created_at'' JNull;
       v3 \<leftarrow> py_get session ''status'' (JStr ''ACTIVE'');
       SessionInfo_init v1 v2 v3
     }"

definition list_sessions_active :: "exc + payload \<Rightarrow> ListSessionsActiveResponse http_result" where
  "list_sessions_active upstream =
     (case upstream of
        Inl e \<Rightarrow> Raised (list_sessions_active_except e)
      | Inr response \<Rightarrow>
          (case do {
                  items \<leftarrow> py_iter (dict_get response ''data'' (JList []));
                  sessions \<leftarrow> those (map session_info items);
                  ListSessionsActiveResponse_init (dict_get response ''code'' (JInt 100))
                    (dict_get response ''message'' (JStr ''Success'')) sessions
                } of
             None \<Rightarrow> Raised (list_sessions_active_except unexpected_error)
           | Some r \<Rightarrow> Returned r))"

subsection \<open>list\_sessions\_history\<close>

record SessionHistoryInfo =
  session_id :: string
  created_at :: int
  ended_at :: "int option"
  status :: string
  duration_seconds :: int
  avatar_id :: "string option"
  voice_name :: "string option"

definition SessionHistoryInfo_init ::
  "json \<Rightarrow> json \<Rightarrow> json \<Rightarrow> json \<Rightarrow> json \<Rightarrow> json \<Rightarrow> json \<Rightarrow> SessionHistoryInfo option" where
  "SessionHistoryInfo_init session_id_v created_at_v ended_at_v status_v duration_seconds_v
       avatar_id_v voice_name_v =
     do {
       i \<leftarrow> field_str session_id_v;
       c \<leftarrow> field_int created_at_v;
       e \<leftarrow> field_opt_int ended_at_v;
       s \<leftarrow> field_str status_v;
       d \<leftarrow> field_int duration_seconds_v;
       a \<leftarrow> field_opt_str avatar_id_v;
       v \<leftarrow> field_opt_str voice_name_v;
       Some \<lparr>session_id = i, created_at = c, ended_at = e, status = s, duration_seconds = d,
             avatar_id = a, voice_name = v\<rparr>
     }"

record PaginationInfo =
  total :: int
  limit :: int
  offset :: int
  has_more :: bool

definition PaginationInfo_init :: "json \<Rightarrow> int \<Rightarrow> int \<Rightarrow> json \<Rightarrow> PaginationInfo option" where
  "PaginationInfo_init total_v lim off has_more_v =
     do {
       t \<leftarrow> field_int total_v;
       h \<leftarrow> field_bool has_more_v;
       Some \<lparr>total = t, limit = lim, offset = off, has_more = h\<rparr>
     }"

record ListSessionsHistoryResponse =
  code :: int
  message :: string
  data :: "SessionHistoryInfo list"
  pagination :: PaginationInfo

definition ListSessionsHistoryResponse_init ::
  "json \<Rightarrow> json \<Rightarrow> SessionHistoryInfo list \<Rightarrow> PaginationInfo \<Rightarrow>
   ListSessionsHistoryResponse option" where
  "ListSessionsHistoryResponse_init code_v message_v sessions pg =
     do {
       c \<leftarrow> field_int code_v;
       m \<leftarrow> field_str message_v;
       Some \<lparr>code = c, message = m, data = sessions, pagination = pg\<rparr>
     }"

text \<open>
  One round of the list comprehension: \<open>Some None\<close> when the filter
  \<open>"session_id" in session and "created_at" in session\<close> drops the entry,
  \<open>Some (Some info)\<close> when the entry is kept, \<open>None\<close> when an exception is raised.
\<close>

definition history_entry :: "json \<Rightarrow> SessionHistoryInfo option option" where
  "history_entry session =
     do {
       has_id \<leftarrow> py_in ''session_id'' session;
       has_created \<leftarrow> (if has_id then py_in ''created_at'' session else Some False);
       if has_id \<and> has_created then
         do {
           v1 \<leftarrow> py_getitem session ''session_id'';
           v2 \<leftarrow> py_getitem session ''created_at'';
           v3 \<leftarrow> py_get session ''ended_at'' JNull;
           v4 \<leftarrow> py_get session ''status'' (JStr ''COMPLETED'');
           v5 \<leftarrow> py_get session ''duration_seconds'' (JInt 0);
           v6 \<leftarrow> py_get session ''avatar_id'' JNull;
           v7 \<leftarrow> py_get session ''voice_name'' JNull;
           info \<leftarrow> SessionHistoryInfo_init v1 v2 v3 v4 v5 v6 v7;
           Some (Some info)
         }
       else Some None
     }"

text \<open>
  The handler. \<open>limit_arg\<close> and \<open>offset_arg\<close> are the query parameters as given
  (\<open>None\<close> when absent); their defaults and bounds are those of the \<open>Query\<close>
  declarations in the signature.
\<close>

definition list_sessions_history ::
  "(int option \<Rightarrow> int option \<Rightarrow> int \<Rightarrow> int \<Rightarrow> exc + payload) \<Rightarrow>
   int option \<Rightarrow> int option \<Rightarrow> int option \<Rightarrow> int option \<Rightarrow>
   ListSessionsHistoryResponse http_result" where
  "list_sessions_history client start_time end_time limit_arg offset_arg =
     (let lim = (case limit_arg of None \<Rightarrow> 10 | Some n \<Rightarrow> n);
          off = (case offset_arg of None \<Rightarrow> 0 | Some n \<Rightarrow> n)
      in
      if lim < 1 \<or> 100 < lim \<or> off < 0 then RequestValidationError
      else
        case client start_time end_time lim off of
          Inl e \<Rightarrow> Raised (list_sessions_history_except e)
        | Inr response \<Rightarrow>
            (case do {
                    items \<leftarrow> py_iter (dict_get response ''data'' (JList []));
                    entries \<leftarrow> those (map history_entry items);
                    total_v \<leftarrow> py_get (dict_get response ''pagination'' (JDict [])) ''total''
                                (JInt 0);
                    has_more_v \<leftarrow> py_get (dict_get response ''pagination'' (JDict []))
                                   ''has_more'' (JBool False);
                    pg \<leftarrow> PaginationInfo_init total_v lim off has_more_v;
                    ListSessionsHistoryResponse_init (dict_get response ''code'' (JInt 100))
                      (dict_get response ''message'' (JStr ''Success''))
                      (List.map_filter (\<lambda>x. x) entries) pg
                  } of
               None \<Rightarrow> Raised (list_sessions_history_except unexpected_error)
             | Some r \<Rightarrow> Returned r))"

section \<open>Vocabulary of the properties\<close>

text \<open>
  A history entry the response model accepts: a dictionary with a string under
  \<open>session_id\<close>, an integer under \<open>created_at\<close>, and every other field of
  \<open>SessionHistoryInfo\<close> absent or of its declared type.
\<close>

definition well_formed_history_entry :: "json \<Rightarrow> bool" where
  "well_formed_history_entry x =
     (case x of
        JDict d \<Rightarrow>
          (case map_of d ''session_id'' of Some v \<Rightarrow> field_str v \<noteq> None | None \<Rightarrow> False) \<and>
          (case map_of d ''created_at'' of Some v \<Rightarrow> field_int v \<noteq> None | None \<Rightarrow> False) \<and>
          field_opt_int (dict_get d ''ended_at'' JNull) \<noteq> None \<and>
          field_str (dict_get d ''status'' (JStr ''COMPLETED'')) \<noteq> None \<and>
          field_int (dict_get d ''duration_seconds'' (JInt 0)) \<noteq> None \<and>
          field_opt_str (dict_get d ''avatar_id'' JNull) \<noteq> None \<and>
          field_opt_str (dict_get d ''voice_name'' JNull) \<noteq> None
      | _ \<Rightarrow> False)"

text \<open>
  The rest of a history payload is well formed: \<open>code\<close> an integer, \<open>message\<close> a
  string, \<open>pagination\<close> a dictionary with an integer \<open>total\<close> and a boolean
  \<open>has_more\<close>, each of them possibly absent.
\<close>

definition well_formed_history_envelope :: "payload \<Rightarrow> bool" where
  "well_formed_history_envelope response =
     (field_int (dict_get response ''code'' (JInt 100)) \<noteq> None \<and>
      field_str (dict_get response ''message'' (JStr ''Success'')) \<noteq> None \<and>
      (case dict_get response ''pagination'' (JDict []) of
         JDict p \<Rightarrow>
           field_int (dict_get p ''total'' (JInt 0)) \<noteq> None \<and>
           field_bool (dict_get p ''has_more'' (JBool False)) \<noteq> None
       | _ \<Rightarrow> False))"

text \<open>An entry of an upstream list that has no \<open>status\<close> key.\<close>

definition omits_status :: "json \<Rightarrow> bool" where
  "omits_status x = (case x of JDict d \<Rightarrow> map_of d ''status'' = None | _ \<Rightarrow> False)"

text \<open>The condition of the history comprehension holds of an entry.\<close>

definition passes_filter :: "json \<Rightarrow> bool" where
  "passes_filter x = (py_in ''session_id'' x = Some True \<and> py_in ''created_at'' x = Some True)"

section \<open>Auxiliary facts\<close>

lemmas except_defs =
  send_task_except_def list_avatars_except_def list_sessions_active_except_def
  list_sessions_history_except_def create_streaming_session_except_def
  start_streaming_session_except_def create_session_token_except_def
  keep_alive_except_def close_session_except_def interrupt_task_except_def

lemmas eval_defs =
  py_iter_def dict_get_def py_get_def py_in_def py_getitem_def field_str_def field_int_def
  field_bool_def field_opt_str_def field_opt_int_def field_opt_dict_def

lemma strip_blank3: "strip ''   '' = []"
  by (simp add: strip_def isspace_def)

lemma strip_hi: "strip ''  hi  '' = ''hi''"
  by (simp add: strip_def isspace_def)





lemma those_map_Some_id: "those (map Some ys) = Some ys"
  by (induction ys) simp_all

lemma those_SomeD: "those xs = Some ys \<Longrightarrow> xs = map Some ys"
proof (induction xs arbitrary: ys)
  case Nil
  then show ?case by simp
next
  case (Cons x xs)
  then show ?case by (cases x; cases "those xs") auto
qed

lemma those_eq_Some: "those xs = Some ys \<longleftrightarrow> xs = map Some ys"
  using those_SomeD those_map_Some_id by blast


lemma those_map_list_all2:
  "those (map f xs) = Some ys \<Longrightarrow> list_all2 (\<lambda>x y. f x = Some y) xs ys"
proof (induction xs arbitrary: ys)
  case Nil
  then show ?case by simp
next
  case (Cons x xs)
  then show ?case by (cases "f x"; cases "those (map f xs)") auto
qed

lemma list_all2_map_self:
  "(\<And>x. x \<in> set zs \<Longrightarrow> P x (g x)) \<Longrightarrow> list_all2 P zs (map g zs)"
  by (induction zs) auto

section \<open>Error translation\<close>

text \<open>
  Claim C1, as the code has it. In every handler the status of the raised HTTPException
  is the table entry of the first except clause that matches the exception:
  AuthenticationError 401, SessionNotFoundError or NotFoundError 404,
  HeyGenValidationError 400, pydantic's ValidationError 422, RateLimitError 429,
  ServerError or HeyGenAPIError the exception's own \<open>status_code\<close> when it has one and
  500 otherwise; an exception that no clause names gets 500. For an exception caught by
  one of the HeyGen clauses the error text of the response is \<open>str(e)\<close>, with one
  exception: the NotFoundError clause of the start handler answers
  \<open>Session not found:\<close> followed by the session id of the request instead.
\<close>

theorem status_follows_first_matching_clause:
  "status_code (handler_except h sid e) =
     (case caught_as h e of Some k \<Rightarrow> table_status k e | None \<Rightarrow> 500)
   \<and> (caught_as h e = Some k \<and> k \<noteq> ValidationError
        \<and> \<not> (h = H_start_streaming_session \<and> k = NotFoundError)
      \<longrightarrow> error_text (detail (handler_except h sid e)) = Some (exc_str e))
   \<and> (caught_as H_start_streaming_session e = Some NotFoundError
      \<longrightarrow> error_text (detail (handler_except H_start_streaming_session sid e))
          = Some (''Session not found: '' @ sid))"
proof (intro conjI impI)
  show "status_code (handler_except h sid e) =
     (case caught_as h e of Some k \<Rightarrow> table_status k e | None \<Rightarrow> 500)"
    by (cases h) (simp_all add: caught_as_def except_defs getattr_status_code_def)
next
  assume "caught_as h e = Some k \<and> k \<noteq> ValidationError
        \<and> \<not> (h = H_start_streaming_session \<and> k = NotFoundError)"
  then show "error_text (detail (handler_except h sid e)) = Some (exc_str e)"
    by (cases h) (auto simp add: caught_as_def except_defs error_text_def split: if_splits)
next
  assume "caught_as H_start_streaming_session e = Some NotFoundError"
  then show "error_text (detail (handler_except H_start_streaming_session sid e))
          = Some (''Session not found: '' @ sid)"
    by (auto simp add: caught_as_def except_defs error_text_def split: if_splits)
qed

text \<open>
  The theorem at a rate-limit error reaching \<open>send_task\<close> and at a NotFoundError
  reaching the start handler.
\<close>

theorem status_follows_first_matching_clause_witness:
  "caught_as H_send_task
     \<lparr>exc_classes = [RateLimitError, HeyGenAPIError], exc_str = ''slow down'',
      exc_status_code = Some 429, exc_details = None\<rparr> = Some RateLimitError
   \<and> handler_except H_send_task ''abc''
       \<lparr>exc_classes = [RateLimitError, HeyGenAPIError], exc_str = ''slow down'',
        exc_status_code = Some 429, exc_details = None\<rparr>
     = \<lparr>status_code = 429, detail = JDict [(''message'', JStr ''slow down'')]\<rparr>
   \<and> error_text (detail (handler_except H_send_task ''abc''
       \<lparr>exc_classes = [RateLimitError, HeyGenAPIError], exc_str = ''slow down'',
        exc_status_code = Some 429, exc_details = None\<rparr>)) = Some ''slow down''
   \<and> caught_as H_start_streaming_session
       \<lparr>exc_classes = [NotFoundError], exc_str = ''gone'', exc_status_code = None,
        exc_details = None\<rparr> = Some NotFoundError
   \<and> error_text (detail (handler_except H_start_streaming_session ''abc''
       \<lparr>exc_classes = [NotFoundError], exc_str = ''gone'', exc_status_code = None,
        exc_details = None\<rparr>)) = Some ''Session not found: abc''"
  using status_follows_first_matching_clause
          [of H_send_task "''abc''"
              "\<lparr>exc_classes = [RateLimitError, HeyGenAPIError], exc_str = ''slow down'',
                exc_status_code = Some 429, exc_details = None\<rparr>" RateLimitError]
        status_follows_first_matching_clause
          [of H_start_streaming_session "''abc''"
              "\<lparr>exc_classes = [NotFoundError], exc_str = ''gone'', exc_status_code = None,
                exc_details = None\<rparr>" NotFoundError]
  by (simp add: caught_as_def isinstance_def except_defs)

text \<open>
  Claim C1 as stated fails. A NotFoundError with text \<open>gone\<close> reaching the start
  handler gives a message that does not contain \<open>gone\<close>; a HeyGenValidationError
  without a \<open>status_code\<close> reaching \<open>create_session_token\<close>, which has no clause for
  that class, gives 500 and not 400.
\<close>

theorem error_text_and_validation_status_counterexample:
  "handler_except H_start_streaming_session ''abc''
     \<lparr>exc_classes = [NotFoundError, HeyGenAPIError], exc_str = ''gone'',
      exc_status_code = Some 404, exc_details = None\<rparr>
   = \<lparr>status_code = 404, detail = JDict [(''message'', JStr ''Session not found: abc'')]\<rparr>
   \<and> \<not> sublist ''gone'' ''Session not found: abc''
   \<and> status_code (handler_except H_create_session_token ''abc''
        \<lparr>exc_classes = [HeyGenValidationError, HeyGenAPIError], exc_str = ''bad input'',
         exc_status_code = None, exc_details = None\<rparr>) = 500"
  by (simp add: except_defs isinstance_def getattr_status_code_def) code_simp




section \<open>Session tokens\<close>

text \<open>
  Claim C3 at \<open>expires_in = 59\<close>. The request model \<open>CreateTokenRequest\<close> rejects 59, but the
  handler never builds it: a client that answers only the call \<open>(abc, 59)\<close> is reached,
  and its token is returned.
\<close>

theorem create_session_token_forwards_59:
  "create_session_token
     (\<lambda>s n. if s = ''abc'' \<and> n = 59 then Inr [(''data'', JDict [(''token'', JStr ''tok'')])]
             else Inl unexpected_error)
     ''abc'' (Some 59)
   = Returned \<lparr>token = ''tok'', error = None\<rparr>
   \<and> CreateTokenRequest_init (JStr ''abc'') (JInt 59) = None"
  by (simp add: create_session_token_def py_get_def dict_get_def CreateTokenResponse_init_def
       field_str_def field_opt_dict_def CreateTokenRequest_init_def field_opt_int_def
       validate_session_id_def strip_def isspace_def)

text \<open>
  Claim C9, as the code has it. When the client returns a payload whose \<open>data\<close> key
  is absent, or holds a dictionary without a \<open>token\<close> key, and whose \<open>error\<close> key is
  absent, \<open>null\<close> or a dictionary, the handler returns the empty token together with
  that error (\<open>null\<close> when absent), with status 201.
\<close>

theorem create_session_token_missing_token:
  assumes "client sid (case expires_in_arg of None \<Rightarrow> 3600 | Some n \<Rightarrow> n) = Inr response"
    and "map_of response ''data'' = None
         \<or> (\<exists>d. map_of response ''data'' = Some (JDict d) \<and> map_of d ''token'' = None)"
    and "field_opt_dict (dict_get response ''error'' JNull) = Some err"
  shows "create_session_token client sid expires_in_arg = Returned \<lparr>token = [], error = err\<rparr>
         \<and> http_status H_create_session_token (create_session_token client sid expires_in_arg)
             = 201"
proof -
  from assms(2)
  have "py_get (dict_get response ''data'' (JDict [])) ''token'' (JStr []) = Some (JStr [])"
    by (auto simp add: py_get_def dict_get_def)
  with assms(1,3)
  have "create_session_token client sid expires_in_arg = Returned \<lparr>token = [], error = err\<rparr>"
    by (simp add: create_session_token_def CreateTokenResponse_init_def field_str_def)
  then show ?thesis by simp
qed

text \<open>
  The theorem at a payload with an empty \<open>data\<close> dictionary and at a payload without
  \<open>data\<close> that carries an error dictionary.
\<close>

theorem create_session_token_missing_token_witness:
  "create_session_token (\<lambda>s n. Inr [(''data'', JDict [])]) ''abc'' None
     = Returned \<lparr>token = [], error = None\<rparr>
   \<and> create_session_token (\<lambda>s n. Inr [(''error'', JDict [(''code'', JInt 7)])]) ''abc''
       (Some 60)
     = Returned \<lparr>token = [], error = Some [(''code'', JInt 7)]\<rparr>"
  using create_session_token_missing_token
          [where client = "\<lambda>s n. Inr [(''data'', JDict [])]" and sid = "''abc''"
             and expires_in_arg = None and response = "[(''data'', JDict [])]" and err = None]
        create_session_token_missing_token
          [where client = "\<lambda>s n. Inr [(''error'', JDict [(''code'', JInt 7)])]"
             and sid = "''abc''" and expires_in_arg = "Some 60"
             and response = "[(''error'', JDict [(''code'', JInt 7)])]"
             and err = "Some [(''code'', JInt 7)]"]
  by (simp add: field_opt_dict_def dict_get_def)

text \<open>
  Claim C9 as stated fails: a payload without \<open>data\<close> whose \<open>error\<close> is a string is
  refused by the response model, and a payload whose \<open>data\<close> is \<open>null\<close> has no
  \<open>get\<close>; both end in the catch-all clause with status 500.
\<close>

theorem create_session_token_error_string_counterexample:
  "create_session_token (\<lambda>s n. Inr [(''error'', JStr ''quota exceeded'')]) ''abc'' None
     = Raised \<lparr>status_code = 500, detail = JStr ''An unexpected error occurred''\<rparr>
   \<and> create_session_token (\<lambda>s n. Inr [(''data'', JNull)]) ''abc'' None
     = Raised \<lparr>status_code = 500, detail = JStr ''An unexpected error occurred''\<rparr>"
  by (simp add: create_session_token_def py_get_def dict_get_def CreateTokenResponse_init_def
        field_str_def field_opt_dict_def create_session_token_except_def unexpected_error_def
        isinstance_def)

section \<open>Tasks\<close>

text \<open>
  Claim C6, for ASCII text. A request body whose \<open>text\<close> is empty after stripping is
  rejected whatever the client would answer, so the client is not consulted. A body with
  a session id, a text that is not empty after stripping and absent or valid task mode
  and type reaches the client as the request whose text is the stripped text.
\<close>

theorem send_task_text_trimmed:
  "(map_of body ''text'' = Some (JStr t) \<and> ascii_text t \<and> strip t = [] \<longrightarrow>
      post_tasks client body = RequestValidationError)
   \<and> (map_of body ''session_id'' = Some (JStr sid) \<and> map_of body ''text'' = Some (JStr t)
      \<and> ascii_text t \<and> strip t \<noteq> []
      \<and> (case map_of body ''task_mode'' of None \<Rightarrow> Some SYNC | Some v \<Rightarrow> field_TaskMode v)
          = Some m
      \<and> (case map_of body ''task_type'' of None \<Rightarrow> Some REPEAT | Some v \<Rightarrow> field_TaskType v)
          = Some ty
      \<longrightarrow> post_tasks client body =
            (case client \<lparr>SendTaskRequest.session_id = sid, text = strip t, task_mode = m,
                           task_type = ty\<rparr> of
               Inr response \<Rightarrow> Returned response
             | Inl e \<Rightarrow> Raised (send_task_except e)))"
  by (auto simp add: post_tasks_def SendTaskRequest_init_def validate_text_def field_str_def
        send_task_def strip_def
      split: option.splits Option.bind_splits json.splits)

text \<open>
  The theorem at the texts of three blanks and of \<open>hi\<close> between blanks, with a client
  that returns the request it was given.
\<close>

theorem send_task_text_trimmed_witness:
  "ascii_text ''   '' \<and> ascii_text ''  hi  ''
   \<and> post_tasks (\<lambda>r. Inr r) [(''session_id'', JStr ''s1''), (''text'', JStr ''   '')]
     = RequestValidationError
   \<and> post_tasks (\<lambda>r. Inr r) [(''session_id'', JStr ''s1''), (''text'', JStr ''  hi  '')]
     = Returned \<lparr>SendTaskRequest.session_id = ''s1'', text = ''hi'', task_mode = SYNC,
                 task_type = REPEAT\<rparr>"
  using send_task_text_trimmed
          [where body = "[(''session_id'', JStr ''s1''), (''text'', JStr ''   '')]"
             and t = "''   ''" and client = "\<lambda>r. Inr r"]
        send_task_text_trimmed
          [where body = "[(''session_id'', JStr ''s1''), (''text'', JStr ''  hi  '')]"
             and t = "''  hi  ''" and sid = "''s1''" and m = SYNC and ty = REPEAT
             and client = "\<lambda>r. Inr r"]
  by (simp add: strip_blank3 strip_hi ascii_text_def)

text \<open>
  Claim C10. Whatever the client returns without raising, the handler answers
  \<open>success = True\<close> with the message \<open>Interrupt signal sent successfully\<close>.
\<close>

theorem interrupt_task_constant_response:
  "client sid = Inr response \<Longrightarrow>
   interrupt_task client sid =
     Returned \<lparr>success = True,
               InterruptTaskResponse.message = ''Interrupt signal sent successfully''\<rparr>"
  by (simp add: interrupt_task_def)

text \<open>The theorem at a client that returns the number 7.\<close>

theorem interrupt_task_constant_response_witness:
  "(\<lambda>s. Inr (JInt 7) :: exc + json) ''abc'' = Inr (JInt 7) \<and>
   interrupt_task (\<lambda>s. Inr (JInt 7) :: exc + json) ''abc'' =
     Returned \<lparr>success = True,
               InterruptTaskResponse.message = ''Interrupt signal sent successfully''\<rparr>"
  using interrupt_task_constant_response [of "\<lambda>s. Inr (JInt 7) :: exc + json" "''abc''" "JInt 7"]
  by simp

section \<open>Normalising upstream lists\<close>

subsection \<open>Entries of the history list\<close>

lemma history_entry_well_formed:
  assumes "well_formed_history_entry x"
  shows "\<exists>h. history_entry x = Some (Some h)"
proof -
  from assms obtain d where x: "x = JDict d"
    by (cases x) (simp_all add: well_formed_history_entry_def)
  from assms x obtain v1 v2 where
    v: "map_of d ''session_id'' = Some v1" "map_of d ''created_at'' = Some v2"
    by (auto simp add: well_formed_history_entry_def split: option.splits)
  from assms x v show ?thesis
    by (auto simp add: well_formed_history_entry_def history_entry_def py_in_def py_getitem_def
          py_get_def SessionHistoryInfo_init_def)
qed

lemma history_entry_no_session_id:
  "map_of d ''session_id'' = None \<Longrightarrow> history_entry (JDict d) = Some None"
  by (simp add: history_entry_def py_in_def)

lemma history_entry_dropped: "history_entry x = Some None \<Longrightarrow> \<not> passes_filter x"
  by (auto simp add: passes_filter_def history_entry_def split: Option.bind_splits if_splits)

lemma history_entry_kept: "history_entry x = Some (Some h) \<Longrightarrow> passes_filter x"
  by (auto simp add: passes_filter_def history_entry_def split: Option.bind_splits if_splits)

lemma kept_entries:
  "list_all2 (\<lambda>x y. history_entry x = Some y) items entries \<Longrightarrow>
   list_all2 (\<lambda>x h. history_entry x = Some (Some h)) (filter passes_filter items)
     (List.map_filter (\<lambda>x. x) entries)"
proof (induction items entries rule: list_all2_induct)
  case Nil
  then show ?case by (simp add: List.map_filter_simps)
next
  case (Cons x xs y ys)
  show ?case
  proof (cases y)
    case None
    with Cons show ?thesis
      by (simp add: List.map_filter_simps history_entry_dropped)
  next
    case (Some h)
    with Cons show ?thesis
      by (simp add: List.map_filter_simps history_entry_kept)
  qed
qed

text \<open>
  Claim C5. Let the history payload carry the entries \<open>xs\<close>, then one dictionary
  without \<open>session_id\<close>, then the entries \<open>ys\<close>, all of \<open>xs\<close> and \<open>ys\<close> well
  formed, in a well-formed envelope, and let the resolved \<open>limit\<close> and \<open>offset\<close> be
  within their bounds. Then the handler returns a response whose list is one shorter than
  the upstream list and consists of the normalised entries of \<open>xs\<close> and \<open>ys\<close> in
  order, and whose pagination carries the resolved \<open>limit\<close> and \<open>offset\<close> of the
  request.
\<close>

theorem history_drops_entry_without_session_id:
  assumes call: "client start_time end_time lim off = Inr response"
    and lim: "lim = (case limit_arg of None \<Rightarrow> 10 | Some n \<Rightarrow> n)"
    and off: "off = (case offset_arg of None \<Rightarrow> 0 | Some n \<Rightarrow> n)"
    and range: "1 \<le> lim" "lim \<le> 100" "0 \<le> off"
    and items: "map_of response ''data'' = Some (JList (xs @ [JDict bad] @ ys))"
    and bad: "map_of bad ''session_id'' = None"
    and wf: "list_all well_formed_history_entry (xs @ ys)"
    and env: "well_formed_history_envelope response"
  shows "\<exists>r. list_sessions_history client start_time end_time limit_arg offset_arg = Returned r
           \<and> length (ListSessionsHistoryResponse.data r) = length (xs @ [JDict bad] @ ys) - 1
           \<and> list_all2 (\<lambda>x h. history_entry x = Some (Some h)) (xs @ ys)
                (ListSessionsHistoryResponse.data r)
           \<and> limit (pagination r) = lim \<and> offset (pagination r) = off"
proof -
  from wf have "\<forall>x\<in>set (xs @ ys). \<exists>h. history_entry x = Some (Some h)"
    by (simp add: list_all_iff history_entry_well_formed)
  then obtain g where g: "\<And>x. x \<in> set (xs @ ys) \<Longrightarrow> history_entry x = Some (Some (g x))"
    by metis
  let ?entries = "map (\<lambda>x. Some (g x)) xs @ [None] @ map (\<lambda>x. Some (g x)) ys"
  have "map history_entry (xs @ [JDict bad] @ ys) = map Some ?entries"
    using g bad by (simp add: history_entry_no_session_id)
  then have those: "those (map history_entry (xs @ [JDict bad] @ ys)) = Some ?entries"
    by (simp only: those_eq_Some)
  have kept: "List.map_filter (\<lambda>x. x) ?entries = map g (xs @ ys)"
    by (simp add: List.map_filter_def comp_def)
  from env obtain c m p t h where
    c: "field_int (dict_get response ''code'' (JInt 100)) = Some c"
    and m: "field_str (dict_get response ''message'' (JStr ''Success'')) = Some m"
    and p: "dict_get response ''pagination'' (JDict []) = JDict p"
    and t: "field_int (dict_get p ''total'' (JInt 0)) = Some t"
    and h: "field_bool (dict_get p ''has_more'' (JBool False)) = Some h"
    by (auto simp add: well_formed_history_envelope_def split: json.splits)
  let ?r = "\<lparr>ListSessionsHistoryResponse.code = c, message = m, data = map g (xs @ ys),
             pagination = \<lparr>total = t, limit = lim, offset = off, has_more = h\<rparr>\<rparr>"
  have "list_sessions_history client start_time end_time limit_arg offset_arg = Returned ?r"
    using call range items those kept c m p t h lim [symmetric] off [symmetric]
    by (simp add: list_sessions_history_def Let_def py_iter_def dict_get_def py_get_def
          PaginationInfo_init_def ListSessionsHistoryResponse_init_def)
  moreover
  have "list_all2 (\<lambda>x h. history_entry x = Some (Some h)) (xs @ ys) (map g (xs @ ys))"
    using g by (rule list_all2_map_self)
  ultimately show ?thesis by auto
qed

text \<open>
  The theorem at a list of three entries whose second has no \<open>session_id\<close>, requested
  with \<open>limit = 2\<close> and no offset, while the upstream pagination says \<open>limit = 50\<close>
  and \<open>offset = 7\<close>.
\<close>

theorem history_drops_entry_without_session_id_witness:
  "list_all well_formed_history_entry
     [JDict [(''session_id'', JStr ''s1''), (''created_at'', JInt 10)],
      JDict [(''session_id'', JStr ''s2''), (''created_at'', JInt 30),
             (''status'', JStr ''CLOSED'')]]
   \<and> well_formed_history_envelope
       [(''data'', JList [JDict [(''session_id'', JStr ''s1''), (''created_at'', JInt 10)],
                          JDict [(''created_at'', JInt 20)],
                          JDict [(''session_id'', JStr ''s2''), (''created_at'', JInt 30),
                                 (''status'', JStr ''CLOSED'')]]),
        (''pagination'', JDict [(''total'', JInt 3), (''limit'', JInt 50), (''offset'', JInt 7)])]
   \<and> list_sessions_history
       (\<lambda>st en l off.
          Inr [(''data'', JList [JDict [(''session_id'', JStr ''s1''), (''created_at'', JInt 10)],
                                 JDict [(''created_at'', JInt 20)],
                                 JDict [(''session_id'', JStr ''s2''), (''created_at'', JInt 30),
                                        (''status'', JStr ''CLOSED'')]]),
               (''pagination'', JDict [(''total'', JInt 3), (''limit'', JInt 50),
                                       (''offset'', JInt 7)])])
       None None (Some 2) None
     = Returned
        \<lparr>ListSessionsHistoryResponse.code = 100, message = ''Success'',
         data = [\<lparr>SessionHistoryInfo.session_id = ''s1'', created_at = 10, ended_at = None,
                  status = ''COMPLETED'', duration_seconds = 0, avatar_id = None,
                  voice_name = None\<rparr>,
                 \<lparr>SessionHistoryInfo.session_id = ''s2'', created_at = 30, ended_at = None,
                  status = ''CLOSED'', duration_seconds = 0, avatar_id = None,
                  voice_name = None\<rparr>],
         pagination = \<lparr>total = 3, limit = 2, offset = 0, has_more = False\<rparr>\<rparr>"
  using history_drops_entry_without_session_id
    [where client = "\<lambda>st en l off.
          Inr [(''data'', JList [JDict [(''session_id'', JStr ''s1''), (''created_at'', JInt 10)],
                                 JDict [(''created_at'', JInt 20)],
                                 JDict [(''session_id'', JStr ''s2''), (''created_at'', JInt 30),
                                        (''status'', JStr ''CLOSED'')]]),
               (''pagination'', JDict [(''total'', JInt 3), (''limit'', JInt 50),
                                       (''offset'', JInt 7)])]"
      and start_time = None and end_time = None and limit_arg = "Some 2" and offset_arg = None
      and lim = 2 and off = 0
      and xs = "[JDict [(''session_id'', JStr ''s1''), (''created_at'', JInt 10)]]"
      and bad = "[(''created_at'', JInt 20)]"
      and ys = "[JDict [(''session_id'', JStr ''s2''), (''created_at'', JInt 30),
                        (''status'', JStr ''CLOSED'')]]", OF refl]
  by (simp add: well_formed_history_entry_def well_formed_history_envelope_def eval_defs
        list_sessions_history_def history_entry_def SessionHistoryInfo_init_def
        PaginationInfo_init_def ListSessionsHistoryResponse_init_def List.map_filter_simps)

subsection \<open>Fallback for a missing status\<close>

lemma avatar_info_fallback:
  "omits_status x \<Longrightarrow> avatar_info x = Some a \<Longrightarrow> AvatarInfo.status a = ''ACTIVE''"
  by (cases x)
     (auto simp add: omits_status_def avatar_info_def py_get_def dict_get_def AvatarInfo_init_def
        field_str_def validate_status_def strip_def isspace_def upper_def upper_char_def
        split: Option.bind_splits if_splits)

lemma session_info_fallback:
  "omits_status x \<Longrightarrow> session_info x = Some a \<Longrightarrow> SessionInfo.status a = ''ACTIVE''"
  by (cases x)
     (auto simp add: omits_status_def session_info_def py_get_def dict_get_def
        SessionInfo_init_def field_str_def split: Option.bind_splits if_splits)

lemma history_entry_fallback:
  "omits_status x \<Longrightarrow> history_entry x = Some (Some a) \<Longrightarrow>
   SessionHistoryInfo.status a = ''COMPLETED''"
  by (cases x)
     (auto simp add: omits_status_def history_entry_def py_get_def dict_get_def
        SessionHistoryInfo_init_def field_str_def split: Option.bind_splits if_splits)

lemma list_avatars_data:
  assumes "list_avatars (Inr response) = Returned r"
  shows "\<exists>items. py_iter (dict_get response ''data'' (JList [])) = Some items
           \<and> list_all2 (\<lambda>x a. avatar_info x = Some a) items (ListAvatarsResponse.data r)"
  using assms
  by (auto simp add: list_avatars_def ListAvatarsResponse_init_def
        split: option.splits Option.bind_splits dest!: those_map_list_all2)

lemma list_sessions_active_data:
  assumes "list_sessions_active (Inr response) = Returned r"
  shows "\<exists>items. py_iter (dict_get response ''data'' (JList [])) = Some items
           \<and> list_all2 (\<lambda>x a. session_info x = Some a) items
                (ListSessionsActiveResponse.data r)"
  using assms
  by (auto simp add: list_sessions_active_def ListSessionsActiveResponse_init_def
        split: option.splits Option.bind_splits dest!: those_map_list_all2)

lemma list_sessions_history_data:
  assumes "list_sessions_history client start_time end_time limit_arg offset_arg = Returned r"
    and "client start_time end_time (case limit_arg of None \<Rightarrow> 10 | Some n \<Rightarrow> n)
           (case offset_arg of None \<Rightarrow> 0 | Some n \<Rightarrow> n) = Inr response"
  shows "\<exists>items. py_iter (dict_get response ''data'' (JList [])) = Some items
           \<and> list_all2 (\<lambda>x h. history_entry x = Some (Some h)) (filter passes_filter items)
                (ListSessionsHistoryResponse.data r)"
  using assms
  by (auto simp add: list_sessions_history_def Let_def ListSessionsHistoryResponse_init_def
        split: option.splits Option.bind_splits if_splits
        dest!: those_map_list_all2 kept_entries)

text \<open>
  Claim C7. Whenever a list handler returns a response, its list corresponds entry by
  entry to the upstream list (for the history handler: to the entries that pass the
  filter), and every entry built from an upstream entry without a \<open>status\<close> key
  carries the fallback: \<open>ACTIVE\<close> for an avatar, \<open>ACTIVE\<close> for an active session,
  \<open>COMPLETED\<close> for a history entry.
\<close>

theorem missing_status_fallback:
  "(list_avatars (Inr response) = Returned ra \<longrightarrow>
      (\<exists>items. py_iter (dict_get response ''data'' (JList [])) = Some items
         \<and> list_all2 (\<lambda>x a. omits_status x \<longrightarrow> AvatarInfo.status a = ''ACTIVE'')
              items (ListAvatarsResponse.data ra)))
   \<and> (list_sessions_active (Inr response) = Returned rs \<longrightarrow>
      (\<exists>items. py_iter (dict_get response ''data'' (JList [])) = Some items
         \<and> list_all2 (\<lambda>x a. omits_status x \<longrightarrow> SessionInfo.status a = ''ACTIVE'')
              items (ListSessionsActiveResponse.data rs)))
   \<and> (client start_time end_time (case limit_arg of None \<Rightarrow> 10 | Some n \<Rightarrow> n)
         (case offset_arg of None \<Rightarrow> 0 | Some n \<Rightarrow> n) = Inr response
       \<and> list_sessions_history client start_time end_time limit_arg offset_arg = Returned rh
      \<longrightarrow>
      (\<exists>items. py_iter (dict_get response ''data'' (JList [])) = Some items
         \<and> list_all2 (\<lambda>x a. omits_status x \<longrightarrow> SessionHistoryInfo.status a = ''COMPLETED'')
              (filter passes_filter items) (ListSessionsHistoryResponse.data rh)))"
proof (intro conjI impI)
  assume "list_avatars (Inr response) = Returned ra"
  then obtain items where "py_iter (dict_get response ''data'' (JList [])) = Some items"
    and "list_all2 (\<lambda>x a. avatar_info x = Some a) items (ListAvatarsResponse.data ra)"
    using list_avatars_data by blast
  then show "\<exists>items. py_iter (dict_get response ''data'' (JList [])) = Some items
         \<and> list_all2 (\<lambda>x a. omits_status x \<longrightarrow> AvatarInfo.status a = ''ACTIVE'')
              items (ListAvatarsResponse.data ra)"
    by (auto elim!: list_all2_mono simp add: avatar_info_fallback)
next
  assume "list_sessions_active (Inr response) = Returned rs"
  then obtain items where "py_iter (dict_get response ''data'' (JList [])) = Some items"
    and "list_all2 (\<lambda>x a. session_info x = Some a) items (ListSessionsActiveResponse.data rs)"
    using list_sessions_active_data by blast
  then show "\<exists>items. py_iter (dict_get response ''data'' (JList [])) = Some items
         \<and> list_all2 (\<lambda>x a. omits_status x \<longrightarrow> SessionInfo.status a = ''ACTIVE'')
              items (ListSessionsActiveResponse.data rs)"
    by (auto elim!: list_all2_mono simp add: session_info_fallback)
next
  assume "client start_time end_time (case limit_arg of None \<Rightarrow> 10 | Some n \<Rightarrow> n)
         (case offset_arg of None \<Rightarrow> 0 | Some n \<Rightarrow> n) = Inr response
       \<and> list_sessions_history client start_time end_time limit_arg offset_arg = Returned rh"
  then obtain items where "py_iter (dict_get response ''data'' (JList [])) = Some items"
    and "list_all2 (\<lambda>x h. history_entry x = Some (Some h)) (filter passes_filter items)
           (ListSessionsHistoryResponse.data rh)"
    using list_sessions_history_data by blast
  then show "\<exists>items. py_iter (dict_get response ''data'' (JList [])) = Some items
         \<and> list_all2 (\<lambda>x a. omits_status x \<longrightarrow> SessionHistoryInfo.status a = ''COMPLETED'')
              (filter passes_filter items) (ListSessionsHistoryResponse.data rh)"
    by (auto elim!: list_all2_mono simp add: history_entry_fallback)
qed

text \<open>
  The theorem at a payload with one entry that has an avatar id, a session id and a
  creation time but no status, given to each of the three handlers.
\<close>

theorem missing_status_fallback_witness:
  "list_avatars
     (Inr [(''data'', JList [JDict [(''avatar_id'', JStr ''a1''), (''session_id'', JStr ''s1''),
                                    (''created_at'', JInt 5)]])])
     = Returned \<lparr>ListAvatarsResponse.code = 100, message = ''Success'',
         data = [\<lparr>AvatarInfo.avatar_id = ''a1'', created_at = 5, is_public = True,
                  status = ''ACTIVE''\<rparr>]\<rparr>
   \<and> list_sessions_active
       (Inr [(''data'', JList [JDict [(''avatar_id'', JStr ''a1''), (''session_id'', JStr ''s1''),
                                      (''created_at'', JInt 5)]])])
     = Returned \<lparr>ListSessionsActiveResponse.code = 100, message = ''Success'',
         data = [\<lparr>SessionInfo.session_id = ''s1'', status = ''ACTIVE'', created_at = 5\<rparr>]\<rparr>
   \<and> list_sessions_history
       (\<lambda>st en l off.
          Inr [(''data'', JList [JDict [(''avatar_id'', JStr ''a1''), (''session_id'', JStr ''s1''),
                                        (''created_at'', JInt 5)]])])
       None None None None
     = Returned \<lparr>ListSessionsHistoryResponse.code = 100, message = ''Success'',
         data = [\<lparr>SessionHistoryInfo.session_id = ''s1'', created_at = 5, ended_at = None,
                  status = ''COMPLETED'', duration_seconds = 0, avatar_id = Some ''a1'',
                  voice_name = None\<rparr>],
         pagination = \<lparr>total = 0, limit = 10, offset = 0, has_more = False\<rparr>\<rparr>
   \<and> omits_status (JDict [(''avatar_id'', JStr ''a1''), (''session_id'', JStr ''s1''),
                            (''created_at'', JInt 5)])"
  using missing_status_fallback
    [where response = "[(''data'', JList [JDict [(''avatar_id'', JStr ''a1''),
                          (''session_id'', JStr ''s1''), (''created_at'', JInt 5)]])]"
       and ra = "\<lparr>ListAvatarsResponse.code = 100, message = ''Success'',
         data = [\<lparr>AvatarInfo.avatar_id = ''a1'', created_at = 5, is_public = True,
                  status = ''ACTIVE''\<rparr>]\<rparr>"
       and rs = "\<lparr>ListSessionsActiveResponse.code = 100, message = ''Success'',
         data = [\<lparr>SessionInfo.session_id = ''s1'', status = ''ACTIVE'', created_at = 5\<rparr>]\<rparr>"
       and client = "\<lambda>st en l off.
          Inr [(''data'', JList [JDict [(''avatar_id'', JStr ''a1''), (''session_id'', JStr ''s1''),
                                        (''created_at'', JInt 5)]])]"
       and start_time = None and end_time = None and limit_arg = None and offset_arg = None
       and rh = "\<lparr>ListSessionsHistoryResponse.code = 100, message = ''Success'',
         data = [\<lparr>SessionHistoryInfo.session_id = ''s1'', created_at = 5, ended_at = None,
                  status = ''COMPLETED'', duration_seconds = 0, avatar_id = Some ''a1'',
                  voice_name = None\<rparr>],
         pagination = \<lparr>total = 0, limit = 10, offset = 0, has_more = False\<rparr>\<rparr>"]
  by (simp add: list_avatars_def list_sessions_active_def list_sessions_history_def eval_defs
        avatar_info_def session_info_def history_entry_def AvatarInfo_init_def
        SessionInfo_init_def SessionHistoryInfo_init_def ListAvatarsResponse_init_def
        ListSessionsActiveResponse_init_def ListSessionsHistoryResponse_init_def
        PaginationInfo_init_def validate_status_def validate_code_def validate_message_def
        strip_def isspace_def upper_def upper_char_def List.map_filter_simps omits_status_def)

subsection \<open>Status strings\<close>







end
